theory Spec2Isabelle
  imports Main "HOL-Library.Multiset"
begin

section \<open>Python values, exceptions and string operations\<close>

text \<open>
  The tool is one Python module, \<^verbatim>\<open>swoosh.py\<close>. Its functions are embedded as HOL
  functions over an explicit environment (the file system and the parser); every
  exception the source can raise is a value \<open>Inl e\<close> of a sum type. Python's \<^verbatim>\<open>str\<close> is
  modelled as \<open>string\<close>.
\<close>

datatype pyerror = OSError | TypeError | ValueError

text \<open>
  The two kinds of value that \<^verbatim>\<open>main\<close> hands to \<^verbatim>\<open>generate_html\<close>: a \<^verbatim>\<open>str\<close> and a list
  of \<^verbatim>\<open>str\<close>. A \<^verbatim>\<open>for\<close> loop over a \<^verbatim>\<open>str\<close> yields its characters as strings of
  length one.
\<close>

datatype pyval = PStr string | PList "string list"

fun py_iter :: "pyval \<Rightarrow> string list" where
  "py_iter (PStr s) = map (\<lambda>c. [c]) s"
| "py_iter (PList xs) = xs"

text \<open>\<^verbatim>\<open>sep.join(xs)\<close>\<close>

fun join_str :: "string \<Rightarrow> string list \<Rightarrow> string" where
  "join_str sep [] = []"
| "join_str sep [x] = x"
| "join_str sep (x # y # ys) = x @ sep @ join_str sep (y # ys)"

text \<open>\<^verbatim>\<open>s.split(c)\<close> for a separator of one character: never the empty list.\<close>

fun split_chr :: "char \<Rightarrow> string \<Rightarrow> string list" where
  "split_chr c [] = [[]]"
| "split_chr c (x # xs) =
     (if x = c then [] # split_chr c xs
      else (case split_chr c xs of
              [] \<Rightarrow> [[x]]
            | l # ls \<Rightarrow> (x # l) # ls))"

definition endswith :: "string \<Rightarrow> string \<Rightarrow> bool" where
  "endswith s suf =
     (length suf \<le> length s \<and> drop (length s - length suf) s = suf)"

text \<open>\<^verbatim>\<open>x or ""\<close> for \<^verbatim>\<open>x\<close> a \<^verbatim>\<open>str\<close> or \<^verbatim>\<open>None\<close>.\<close>

fun or_empty :: "string option \<Rightarrow> string" where
  "or_empty None = []"
| "or_empty (Some s) = s"

subsection \<open>\<^verbatim>\<open>inspect.cleandoc\<close>\<close>

text \<open>
  \<^verbatim>\<open>ast.get_docstring(node)\<close> is called with its default \<^verbatim>\<open>clean=True\<close>, which passes the
  literal through \<^verbatim>\<open>inspect.cleandoc\<close>:
  \<^verbatim>\<open>
  lines = doc.expandtabs().split('\n')
  margin = sys.maxsize
  for line in lines[1:]:
      content = len(line.lstrip())
      if content:
          indent = len(line) - content
          margin = min(margin, indent)
  if lines:
      lines[0] = lines[0].lstrip()
  if margin < sys.maxsize:
      for i in range(1, len(lines)): lines[i] = lines[i][margin:]
  while lines and not lines[-1]:
      lines.pop()
  while lines and not lines[0]:
      lines.pop(0)
  return '\n'.join(lines)
  \<close>
\<close>

text \<open>\<^verbatim>\<open>str.isspace\<close> on one character, for the characters below 256.\<close>

definition isspace :: "char \<Rightarrow> bool" where
  "isspace c =
     (c \<in> {CHR 0x09, CHR 0x0A, CHR 0x0B, CHR 0x0C, CHR 0x0D, CHR 0x1C, CHR 0x1D, CHR 0x1E,
            CHR 0x1F, CHR 0x20, CHR 0x85, CHR 0xA0})"

definition lstrip :: "string \<Rightarrow> string" where
  "lstrip s = dropWhile isspace s"

text \<open>
  \<^verbatim>\<open>s.expandtabs()\<close> with the default tab size 8: the column starts again after a line
  feed or a carriage return.
\<close>

fun expandtabs_from :: "nat \<Rightarrow> string \<Rightarrow> string" where
  "expandtabs_from j [] = []"
| "expandtabs_from j (c # cs) =
     (if c = CHR 0x09
      then replicate (8 - j mod 8) CHR '' '' @ expandtabs_from (j + (8 - j mod 8)) cs
      else c # expandtabs_from (if c = CHR 0x0A \<or> c = CHR 0x0D then 0 else Suc j) cs)"

definition expandtabs :: "string \<Rightarrow> string" where
  "expandtabs s = expandtabs_from 0 s"

definition sys_maxsize :: nat where
  "sys_maxsize = 2 ^ 63 - 1"

definition margin_step :: "nat \<Rightarrow> string \<Rightarrow> nat" where
  "margin_step margin line =
     (let content = length (lstrip line)
      in if content \<noteq> 0 then min margin (length line - content) else margin)"

definition cleandoc :: "string \<Rightarrow> string" where
  "cleandoc doc =
     (let lines = split_chr CHR 0x0A (expandtabs doc);
          margin = foldl margin_step sys_maxsize (tl lines);
          lines1 = (case lines of [] \<Rightarrow> [] | l # ls \<Rightarrow> lstrip l # ls);
          lines2 = (if margin < sys_maxsize
                    then (case lines1 of [] \<Rightarrow> [] | l # ls \<Rightarrow> l # map (drop margin) ls)
                    else lines1);
          lines3 = rev (dropWhile (\<lambda>l. l = []) (rev lines2));
          lines4 = dropWhile (\<lambda>l. l = []) lines3
      in join_str [CHR 0x0A] lines4)"

section \<open>Syntax trees\<close>

text \<open>
  The nodes of Python's \<^verbatim>\<open>ast\<close> module that the tool tells apart. Every other node kind
  (class definitions, compound statements, expressions) is a \<open>Node\<close> holding its child
  nodes in field order. A function definition holds its name, its \<^verbatim>\<open>arguments\<close>, its body
  and the child nodes that come after the body (decorators, return annotation). The
  \<^verbatim>\<open>arguments\<close> node keeps the declared names of each parameter kind; its own child nodes
  (annotations and default values) are expressions, which hold no function definition,
  and are left out.
\<close>

datatype pyconst = CStr string | COther

datatype arguments =
  Arguments (posonlyargs: "string list") (args: "string list") (vararg: "string option")
    (kwonlyargs: "string list") (kwarg: "string option")

datatype ast =
    Module "ast list"
  | FunctionDef string arguments "ast list" "ast list"
  | AsyncFunctionDef string arguments "ast list" "ast list"
  | Expr ast
  | Constant pyconst
  | Node "ast list"

text \<open>\<^verbatim>\<open>ast.iter_child_nodes(node)\<close>\<close>

fun iter_child_nodes :: "ast \<Rightarrow> ast list" where
  "iter_child_nodes (Module body) = body"
| "iter_child_nodes (FunctionDef name a body rest) = body @ rest"
| "iter_child_nodes (AsyncFunctionDef name a body rest) = body @ rest"
| "iter_child_nodes (Expr v) = [v]"
| "iter_child_nodes (Constant c) = []"
| "iter_child_nodes (Node children) = children"

lemma size_iter_child_nodes:
  "sum_list (map (\<lambda>c. Suc (size c)) (iter_child_nodes n)) \<le> size n"
proof -
  have eq: "sum_list (map (\<lambda>c. Suc (size c)) xs) = size_list size xs" for xs :: "ast list"
    by (induction xs) auto
  show ?thesis
    by (cases n) (simp_all add: eq)
qed

text \<open>
  \<^verbatim>\<open>ast.walk(node)\<close>, started on the queue \<open>[node]\<close>:
  \<^verbatim>\<open>
  todo = deque([node])
  while todo:
      node = todo.popleft()
      todo.extend(iter_child_nodes(node))
      yield node
  \<close>
\<close>

function walk_todo :: "ast list \<Rightarrow> ast list" where
  "walk_todo [] = []"
| "walk_todo (node # todo) = node # walk_todo (todo @ iter_child_nodes node)"
  by pat_completeness auto
termination
proof (relation "measure (\<lambda>todo. sum_list (map (\<lambda>c. Suc (size c)) todo))")
  show "wf (measure (\<lambda>todo. sum_list (map (\<lambda>c. Suc (size c)) todo)))" by simp
next
  fix node :: ast and todo :: "ast list"
  show "(todo @ iter_child_nodes node, node # todo)
          \<in> measure (\<lambda>todo. sum_list (map (\<lambda>c. Suc (size c)) todo))"
    using size_iter_child_nodes [of node] by simp
qed

definition walk :: "ast \<Rightarrow> ast list" where
  "walk node = walk_todo [node]"

text \<open>
  \<^verbatim>\<open>ast.get_docstring(node)\<close> with \<^verbatim>\<open>clean=True\<close>: \<^verbatim>\<open>TypeError\<close> on a node kind that
  cannot have a docstring, \<^verbatim>\<open>None\<close> when the body does not start with a string literal.
\<close>

fun body_docstring :: "ast list \<Rightarrow> string option" where
  "body_docstring (Expr (Constant (CStr text)) # rest) = Some (cleandoc text)"
| "body_docstring body = None"

fun get_docstring :: "ast \<Rightarrow> pyerror + string option" where
  "get_docstring (Module body) = Inr (body_docstring body)"
| "get_docstring (FunctionDef name a body rest) = Inr (body_docstring body)"
| "get_docstring (AsyncFunctionDef name a body rest) = Inr (body_docstring body)"
| "get_docstring node = Inl TypeError"

section \<open>The file system\<close>

text \<open>
  A file system without symbolic links. A regular file either cannot be opened, or opens
  and then holds a text or fails when read (an I/O or decoding error). A directory lists
  its entries in enumeration order, or cannot be listed.
\<close>

datatype file_content = ReadFails | Text string

datatype fsnode =
    File file_content
  | FileNoOpen
  | Dir "(string \<times> fsnode) list"
  | DirNoList

text \<open>
  The environment of a run: the file system with the working directory (the names from
  the root down to it), and the library functions that are taken as they are:
  whether \<^verbatim>\<open>open(path, 'w')\<close> raises, \<^verbatim>\<open>os.path.relpath(path, start)\<close> and \<^verbatim>\<open>ast.parse\<close>,
  which returns the body of a \<^verbatim>\<open>Module\<close> or raises (\<open>None\<close>).
\<close>

record env =
  fs_root :: fsnode
  fs_cwd :: "string list"
  open_w :: "string \<Rightarrow> pyerror option"
  os_path_relpath :: "string \<Rightarrow> string \<Rightarrow> string"
  ast_parse :: "string \<Rightarrow> ast list option"

text \<open>\<^verbatim>\<open>os.path.basename(p)\<close>: \<^verbatim>\<open>p[p.rfind('/') + 1:]\<close>\<close>

definition basename :: "string \<Rightarrow> string" where
  "basename p = rev (takeWhile (\<lambda>c. c \<noteq> CHR ''/'') (rev p))"

text \<open>
  \<^verbatim>\<open>os.path.join(a, b)\<close>:
  \<^verbatim>\<open>
  if b.startswith(sep): path = b
  elif not path or path.endswith(sep): path += b
  else: path += sep + b
  \<close>
\<close>

definition path_join :: "string \<Rightarrow> string \<Rightarrow> string" where
  "path_join a b =
     (if take 1 b = ''/'' then b
      else if a = [] \<or> endswith a ''/'' then a @ b
      else a @ ''/'' @ b)"

text \<open>
  Path resolution, one component at a time, on the list of the nodes from the current
  one up to the root.
\<close>

fun resolve_step :: "fsnode list \<Rightarrow> string \<Rightarrow> fsnode list option" where
  "resolve_step (Dir entries # up) c =
     (if c = [] \<or> c = ''.'' then Some (Dir entries # up)
      else if c = ''..'' then Some (if up = [] then [Dir entries] else up)
      else (case map_of entries c of
              None \<Rightarrow> None
            | Some n \<Rightarrow> Some (n # Dir entries # up)))"
| "resolve_step nodes c = None"

fun resolve_steps :: "fsnode list \<Rightarrow> string list \<Rightarrow> fsnode list option" where
  "resolve_steps nodes [] = Some nodes"
| "resolve_steps nodes (c # cs) =
     (case resolve_step nodes c of
        None \<Rightarrow> None
      | Some nodes' \<Rightarrow> resolve_steps nodes' cs)"

definition resolve :: "env \<Rightarrow> string \<Rightarrow> fsnode option" where
  "resolve env p =
     (if p = [] then None
      else (case resolve_steps [fs_root env] (if take 1 p = ''/'' then [] else fs_cwd env) of
              None \<Rightarrow> None
            | Some start \<Rightarrow>
                (case resolve_steps start (split_chr CHR ''/'' p) of
                   None \<Rightarrow> None
                 | Some [] \<Rightarrow> None
                 | Some (n # up) \<Rightarrow> Some n)))"

text \<open>
  \<^verbatim>\<open>open(path, 'r')\<close>: the opened file, \<^verbatim>\<open>ValueError\<close> for a string with a null
  character, which is no path, or \<^verbatim>\<open>OSError\<close>.
\<close>

definition open_r :: "env \<Rightarrow> string \<Rightarrow> pyerror + file_content" where
  "open_r env path =
     (if CHR 0x00 \<in> set path then Inl ValueError
      else (case resolve env path of
              Some (File content) \<Rightarrow> Inr content
            | _ \<Rightarrow> Inl OSError))"

text \<open>
  \<^verbatim>\<open>os.walk(top)\<close> with its defaults (top-down, \<^verbatim>\<open>onerror=None\<close>): a directory that
  cannot be listed yields nothing and raises nothing, since the \<^verbatim>\<open>OSError\<close> of
  \<^verbatim>\<open>scandir\<close> is caught. The \<^verbatim>\<open>ValueError\<close> of \<^verbatim>\<open>scandir\<close> for a string with a null
  character is not caught. The names of the entries of a directory are taken to be
  well formed.
\<close>

fun is_dir :: "fsnode \<Rightarrow> bool" where
  "is_dir (Dir entries) = True"
| "is_dir DirNoList = True"
| "is_dir n = False"

fun walk_node :: "string \<Rightarrow> fsnode \<Rightarrow> (string \<times> string list \<times> string list) list"
  and walk_dirs :: "string \<Rightarrow> (string \<times> fsnode) list \<Rightarrow> (string \<times> string list \<times> string list) list"
where
  "walk_node path (Dir entries) =
     (path, map fst (filter (\<lambda>e. is_dir (snd e)) entries),
           map fst (filter (\<lambda>e. \<not> is_dir (snd e)) entries))
     # walk_dirs path entries"
| "walk_node path (File content) = []"
| "walk_node path FileNoOpen = []"
| "walk_node path DirNoList = []"
| "walk_dirs path [] = []"
| "walk_dirs path (e # entries) =
     (if is_dir (snd e) then walk_node (path_join path (fst e)) (snd e) else [])
     @ walk_dirs path entries"

definition os_walk :: "env \<Rightarrow> string \<Rightarrow> pyerror + (string \<times> string list \<times> string list) list" where
  "os_walk env path =
     (if CHR 0x00 \<in> set path then Inl ValueError
      else Inr (case resolve env path of
                  None \<Rightarrow> []
                | Some n \<Rightarrow> walk_node path n))"

section \<open>The program\<close>

text \<open>A \<^verbatim>\<open>for\<close> loop whose body may raise: the first exception ends the loop.\<close>

fun for_loop :: "('s \<Rightarrow> 'a \<Rightarrow> pyerror + 's) \<Rightarrow> 's \<Rightarrow> 'a list \<Rightarrow> pyerror + 's" where
  "for_loop body s [] = Inr s"
| "for_loop body s (x # xs) =
     (case body s x of
        Inl e \<Rightarrow> Inl e
      | Inr s' \<Rightarrow> for_loop body s' xs)"

text \<open>
  The \<^verbatim>\<open>try\<close> block that both readers share,
  \<^verbatim>\<open>tree = ast.parse(file.read(), filename=filepath)\<close> under a bare \<^verbatim>\<open>except\<close>:
  \<open>None\<close> when the handler is taken.
\<close>

definition read_parse :: "env \<Rightarrow> file_content \<Rightarrow> ast option" where
  "read_parse env file =
     (case file of
        ReadFails \<Rightarrow> None
      | Text text \<Rightarrow>
          (case ast_parse env text of
             None \<Rightarrow> None
           | Some body \<Rightarrow> Some (Module body)))"

definition get_file_docstring :: "env \<Rightarrow> string \<Rightarrow> pyerror + string" where
  "get_file_docstring env filepath =
     (case open_r env filepath of
        Inl e \<Rightarrow> Inl e
      | Inr file \<Rightarrow>
          (case read_parse env file of
             None \<Rightarrow> Inr []
           | Some tree \<Rightarrow>
               (case get_docstring tree of
                  Inl e \<Rightarrow> Inl e
                | Inr d \<Rightarrow> Inr (or_empty d))))"

type_synonym function_info = "string \<times> string \<times> string list"

text \<open>The body of the loop over \<^verbatim>\<open>ast.walk(tree)\<close>, on one node.\<close>

fun scan_node :: "function_info list \<Rightarrow> ast \<Rightarrow> pyerror + function_info list" where
  "scan_node functions (FunctionDef name a body rest) =
     (case get_docstring (FunctionDef name a body rest) of
        Inl e \<Rightarrow> Inl e
      | Inr d \<Rightarrow> Inr (functions @ [(name, or_empty d, args a)]))"
| "scan_node functions (AsyncFunctionDef name a body rest) =
     (case get_docstring (AsyncFunctionDef name a body rest) of
        Inl e \<Rightarrow> Inl e
      | Inr d \<Rightarrow> Inr (functions @ [(name, or_empty d, args a)]))"
| "scan_node functions node = Inr functions"

definition get_function_info :: "env \<Rightarrow> string \<Rightarrow> pyerror + function_info list" where
  "get_function_info env filepath =
     (case open_r env filepath of
        Inl e \<Rightarrow> Inl e
      | Inr file \<Rightarrow>
          (case read_parse env file of
             None \<Rightarrow> Inr []
           | Some tree \<Rightarrow> for_loop scan_node [] (walk tree)))"

subsection \<open>\<^verbatim>\<open>generate_html\<close>\<close>

definition html_head_block :: string where
  \<open>html_head_block =
     ''\<newline>'' @
     ''    <style>\<newline>'' @
     ''        body { font-family: Arial, sans-serif; margin: 20px; }\<newline>'' @
     ''        ul, #fileTree, #functionList { list-style-type: none; padding-left: 0; }\<newline>'' @
     ''        li { margin-left: 20px; cursor: pointer; }\<newline>'' @
     ''        .nested { display: none; }\<newline>'' @
     ''        .active { display: block; }\<newline>'' @
     ''        .caret { font-weight: bold; }\<newline>'' @
     ''        .caret::before { content: "'' @ [CHR 0x5C] @ ''25B6"; margin-right: 6px; }\<newline>'' @
     ''        .caret-down::before { content: "'' @ [CHR 0x5C] @ ''25BC"; }\<newline>'' @
     ''        #functionList { display: none; }\<newline>'' @
     ''        .toggle-btn { margin: 20px; padding: 10px; background-color: #007BFF; color: white; border: none; cursor: pointer; }\<newline>'' @
     ''        .search-box { margin: 20px; }\<newline>'' @
     ''        #viewTitle { display: none; font-weight: bold; margin-top: 20px; }\<newline>'' @
     ''    </style>\<newline>'' @
     ''    <script>\<newline>'' @
     ''        document.addEventListener("DOMContentLoaded", function() {\<newline>'' @
     ''            var togglers = document.getElementsByClassName("caret");\<newline>'' @
     ''            for (var i = 0; i < togglers.length; i++) {\<newline>'' @
     ''                togglers[i].addEventListener("click", function() {\<newline>'' @
     ''                    this.parentElement.querySelector(".nested").classList.toggle("active");\<newline>'' @
     ''                    this.classList.toggle("caret-down");\<newline>'' @
     ''                });\<newline>'' @
     ''            }\<newline>'' @
     ''            \<newline>'' @
     ''            // Toggle between file tree and function list views\<newline>'' @
     ''            document.getElementById("toggleViewBtn").addEventListener("click", function() {\<newline>'' @
     ''                var fileTree = document.getElementById("fileTree");\<newline>'' @
     ''                var functionList = document.getElementById("functionList");\<newline>'' @
     ''                var viewTitle = document.getElementById("viewTitle");\<newline>'' @
     ''                \<newline>'' @
     ''                if (fileTree.style.display === "none") {\<newline>'' @
     ''                    fileTree.style.display = "block";\<newline>'' @
     ''                    functionList.style.display = "none";\<newline>'' @
     ''                    viewTitle.style.display = "none";\<newline>'' @
     ''                } else {\<newline>'' @
     ''                    fileTree.style.display = "none";\<newline>'' @
     ''                    functionList.style.display = "block";\<newline>'' @
     ''                    viewTitle.style.display = "block";\<newline>'' @
     ''                }\<newline>'' @
     ''            });\<newline>'' @
     ''            \<newline>'' @
     ''            // Search functionality\<newline>'' @
     ''            document.getElementById("searchBox").addEventListener("input", function() {\<newline>'' @
     ''                var query = this.value.toLowerCase();\<newline>'' @
     ''                var files = document.querySelectorAll("#fileTree li, #functionList li");\<newline>'' @
     ''                files.forEach(function(file) {\<newline>'' @
     ''                    if (file.textContent.toLowerCase().includes(query)) {\<newline>'' @
     ''                        file.style.display = "";\<newline>'' @
     ''                    } else {\<newline>'' @
     ''                        file.style.display = "none";\<newline>'' @
     ''                    }\<newline>'' @
     ''                });\<newline>'' @
     ''            });\<newline>'' @
     ''        });\<newline>'' @
     ''    </script>\<newline>'' @
     ''    </head><body>''\<close>

text \<open>The first seven elements of \<^verbatim>\<open>html_content\<close>.\<close>

definition html_prologue :: "string list" where
  \<open>html_prologue =
     [''<html><head><title>Project Documentation</title>'',
      html_head_block,
      ''<h1>Project Documentation</h1>'',
      ''<div class="search-box"><input type="text" id="searchBox" placeholder="Search functions or files..."></div>'',
      ''<button id="toggleViewBtn" class="toggle-btn">Toggle View</button>'',
      ''<div id="viewTitle"></div>'',
      ''<ul id="fileTree">'']\<close>

text \<open>
  The state of the loops: \<^verbatim>\<open>html_content\<close> and \<^verbatim>\<open>all_functions\<close>, whose elements are
  \<^verbatim>\<open>(relpath, func_name, param_list, func_docstring_html)\<close>.
\<close>

type_synonym flat_entry = "string \<times> string \<times> string \<times> string"

type_synonym gen_state = "string list \<times> flat_entry list"

definition param_list_of :: "string list \<Rightarrow> string" where
  "param_list_of params = (if params \<noteq> [] then join_str '', '' params else ''No parameters'')"

definition func_docstring_html_of :: "string \<Rightarrow> string" where
  "func_docstring_html_of func_docstring =
     (if func_docstring \<noteq> [] then func_docstring else ''No docstring'')"

text \<open>The body of the loop over \<^verbatim>\<open>functions\<close> (tree view).\<close>

fun function_step :: "string \<Rightarrow> gen_state \<Rightarrow> function_info \<Rightarrow> gen_state" where
  \<open>function_step relpath (html_content, all_functions) (func_name, func_docstring, params) =
     (let param_list = param_list_of params;
          func_docstring_html = func_docstring_html_of func_docstring
      in (html_content @
            [''<li><span class="caret">Function: '' @ func_name @ ''</span>'',
             ''<ul class="nested">'',
             ''<li><strong>Parameters:</strong> '' @ param_list @ ''</li>'',
             ''<li><strong>Docstring:</strong> '' @ func_docstring_html @ ''</li>'',
             ''</ul></li>''],
          all_functions @ [(relpath, func_name, param_list, func_docstring_html)]))\<close>

text \<open>The body of the loop over \<^verbatim>\<open>files\<close>.\<close>

definition file_step :: "env \<Rightarrow> string \<Rightarrow> string \<Rightarrow> gen_state \<Rightarrow> string \<Rightarrow> pyerror + gen_state" where
  \<open>file_step env directory root st file =
     (if endswith file ''.py'' then
        (let filepath = path_join root file;
             relpath = os_path_relpath env filepath directory;
             st1 = (fst st @ [''<li><span class="caret">'' @ relpath @ ''</span>'',
                              ''<ul class="nested">''], snd st)
         in case get_file_docstring env filepath of
              Inl e \<Rightarrow> Inl e
            | Inr file_docstring \<Rightarrow>
                (let st2 = (if file_docstring \<noteq> []
                            then (fst st1 @ [''<li><strong>File Docstring:</strong> '' @ file_docstring @ ''</li>''],
                                  snd st1)
                            else st1)
                 in case get_function_info env filepath of
                      Inl e \<Rightarrow> Inl e
                    | Inr functions \<Rightarrow>
                        (let st3 = (if functions \<noteq> []
                                    then foldl (function_step relpath) st2 functions
                                    else st2)
                         in Inr (fst st3 @ [''</ul></li>''], snd st3))))
      else Inr st)\<close>

text \<open>The body of the loop over \<^verbatim>\<open>os.walk(directory)\<close>.\<close>

fun walk_step :: "env \<Rightarrow> string \<Rightarrow> gen_state \<Rightarrow> string \<times> string list \<times> string list \<Rightarrow> pyerror + gen_state" where
  "walk_step env directory st (root, dirs, files) = for_loop (file_step env directory root) st files"

text \<open>The body of the loop over \<^verbatim>\<open>directories\<close>.\<close>

definition directory_step :: "env \<Rightarrow> gen_state \<Rightarrow> string \<Rightarrow> pyerror + gen_state" where
  \<open>directory_step env st directory =
     (let st1 = (fst st @ [''<li><span class="caret">'' @ basename directory @ ''</span>'',
                          ''<ul class="nested">''], snd st)
      in case os_walk env directory of
           Inl e \<Rightarrow> Inl e
         | Inr walked \<Rightarrow>
             (case for_loop (walk_step env directory) st1 walked of
                Inl e \<Rightarrow> Inl e
              | Inr st2 \<Rightarrow> Inr (fst st2 @ [''</ul></li>''], snd st2)))\<close>

text \<open>The body of the loop over \<^verbatim>\<open>all_functions\<close> (flat list).\<close>

fun flat_step :: "string list \<Rightarrow> flat_entry \<Rightarrow> string list" where
  \<open>flat_step html_content (filepath, func_name, param_list, func_docstring_html) =
     html_content @
       [''<li><strong>'' @ func_name @ ''</strong> in <em>'' @ filepath @ ''</em>'',
        ''<ul>'',
        ''<li><strong>Parameters:</strong> '' @ param_list @ ''</li>'',
        ''<li><strong>Docstring:</strong> '' @ func_docstring_html @ ''</li>'',
        ''</ul></li>'']\<close>

text \<open>
  \<^verbatim>\<open>html_content\<close> as it stands before the output file is opened, with
  \<^verbatim>\<open>all_functions\<close>.
\<close>

definition build_html :: "env \<Rightarrow> pyval \<Rightarrow> pyerror + gen_state" where
  \<open>build_html env directories =
     (case for_loop (directory_step env) (html_prologue, []) (py_iter directories) of
        Inl e \<Rightarrow> Inl e
      | Inr st \<Rightarrow>
          (let html1 = fst st @ [''</ul>'', ''<ul id="functionList">'', ''<h2>Function List</h2>''];
               html2 = foldl flat_step html1 (snd st)
           in Inr (html2 @ [''</ul>'', ''</body></html>''], snd st)))\<close>

text \<open>
  What a run that returns has done: the file it wrote, with its text, and the line it
  printed.
\<close>

record run_output =
  written_path :: string
  written_text :: string
  printed :: string

definition generate_html :: "env \<Rightarrow> pyval \<Rightarrow> pyval \<Rightarrow> pyerror + run_output" where
  \<open>generate_html env directories output_file =
     (case build_html env directories of
        Inl e \<Rightarrow> Inl e
      | Inr st \<Rightarrow>
          (case output_file of
             PList xs \<Rightarrow> Inl TypeError
           | PStr path \<Rightarrow>
               (case open_w env path of
                  Some e \<Rightarrow> Inl e
                | None \<Rightarrow>
                    Inr \<lparr>written_path = path,
                         written_text = join_str [CHR 0x0A] (fst st),
                         printed = ''HTML documentation written to '' @ path\<rparr>)))\<close>

text \<open>
  \<^verbatim>\<open>
  def main():
      args = sys.argv[1:]
      dirs = args
      output = 'documentation.html'
      generate_html(output, dirs)
  \<close>
\<close>

definition main :: "env \<Rightarrow> string list \<Rightarrow> pyerror + run_output" where
  "main env argv =
     (let dirs = PList argv;
          output = PStr ''documentation.html''
      in generate_html env output dirs)"

section \<open>Reference definitions\<close>

text \<open>
  The definitions of this section are not code of the tool. They say, in the words of
  its specification, what the theorems below compare the code with: the ways to
  enumerate a syntax tree, the pipeline ``walk, then render'', and the data model of
  function, file and directory entries.
\<close>

subsection \<open>Syntax trees\<close>

text \<open>The entry that one node contributes to the scan: none unless it defines a function.\<close>

fun node_functions :: "ast \<Rightarrow> function_info list" where
  "node_functions (FunctionDef name a body rest) = [(name, or_empty (body_docstring body), args a)]"
| "node_functions (AsyncFunctionDef name a body rest) = [(name, or_empty (body_docstring body), args a)]"
| "node_functions node = []"

text \<open>The \<^verbatim>\<open>arguments\<close> of a node that defines a function.\<close>

fun node_arguments :: "ast \<Rightarrow> arguments list" where
  "node_arguments (FunctionDef name a body rest) = [a]"
| "node_arguments (AsyncFunctionDef name a body rest) = [a]"
| "node_arguments node = []"

text \<open>
  The positional parameters of a definition: the positional-only ones (before \<^verbatim>\<open>/\<close>)
  and the ones that can be passed by position or by keyword.
\<close>

definition positional_parameters :: "arguments \<Rightarrow> string list" where
  "positional_parameters a = posonlyargs a @ args a"

text \<open>Pre-order: a node, then the subtrees of its children from left to right.\<close>

fun preorder :: "ast \<Rightarrow> ast list" where
  "preorder (Module body) = Module body # concat (map preorder body)"
| "preorder (FunctionDef name a body rest) =
     FunctionDef name a body rest # concat (map preorder body) @ concat (map preorder rest)"
| "preorder (AsyncFunctionDef name a body rest) =
     AsyncFunctionDef name a body rest # concat (map preorder body) @ concat (map preorder rest)"
| "preorder (Expr v) = Expr v # preorder v"
| "preorder (Constant c) = [Constant c]"
| "preorder (Node children) = Node children # concat (map preorder children)"

lemma sum_list_concat_children:
  "sum_list (map (\<lambda>c. Suc (size c)) (concat (map iter_child_nodes ns)))
     \<le> sum_list (map size ns)"
proof (induction ns)
  case Nil
  show ?case by simp
next
  case (Cons n ns)
  then show ?case using size_iter_child_nodes [of n] by simp
qed

text \<open>
  Level order (breadth first): all the nodes of one depth from left to right, then
  those of the next depth.
\<close>

function level_order :: "ast list \<Rightarrow> ast list" where
  "level_order [] = []"
| "level_order (n # ns) = (n # ns) @ level_order (concat (map iter_child_nodes (n # ns)))"
  by pat_completeness auto
termination
proof (relation "measure (\<lambda>ns. sum_list (map (\<lambda>c. Suc (size c)) ns))")
  show "wf (measure (\<lambda>ns. sum_list (map (\<lambda>c. Suc (size c)) ns)))" by simp
next
  fix n :: ast and ns :: "ast list"
  have "sum_list (map (\<lambda>c. Suc (size c)) (concat (map iter_child_nodes (n # ns))))
          \<le> sum_list (map size (n # ns))"
    by (rule sum_list_concat_children)
  also have "\<dots> < sum_list (map (\<lambda>c. Suc (size c)) (n # ns))"
    by (induction ns) auto
  finally show "(concat (map iter_child_nodes (n # ns)), n # ns)
          \<in> measure (\<lambda>ns. sum_list (map (\<lambda>c. Suc (size c)) ns))"
    by simp
qed

subsection \<open>Walk, then render\<close>

text \<open>
  The specification describes a walker that returns directory entries (a name and
  file entries; a file entry is a relative path, a file docstring and the functions),
  and a renderer that turns them into the document.
\<close>

type_synonym file_entry = "string \<times> string \<times> function_info list"

type_synonym directory_entry = "string \<times> file_entry list"

text \<open>Running a step on each element of a list, in order, up to the first exception.\<close>

fun collect :: "('a \<Rightarrow> pyerror + 'b list) \<Rightarrow> 'a list \<Rightarrow> pyerror + 'b list" where
  "collect g [] = Inr []"
| "collect g (x # xs) =
     (case g x of
        Inl e \<Rightarrow> Inl e
      | Inr ys \<Rightarrow> (case collect g xs of Inl e \<Rightarrow> Inl e | Inr zs \<Rightarrow> Inr (ys @ zs)))"

text \<open>The walker, one level at a time: a file, the files of one directory listing, a root, all roots.\<close>

definition scan_file :: "env \<Rightarrow> string \<Rightarrow> string \<Rightarrow> string \<Rightarrow> pyerror + file_entry list" where
  "scan_file env directory root file =
     (if endswith file ''.py'' then
        (case get_file_docstring env (path_join root file) of
           Inl e \<Rightarrow> Inl e
         | Inr file_docstring \<Rightarrow>
             (case get_function_info env (path_join root file) of
                Inl e \<Rightarrow> Inl e
              | Inr functions \<Rightarrow>
                  Inr [(os_path_relpath env (path_join root file) directory, file_docstring, functions)]))
      else Inr [])"

fun scan_walk :: "env \<Rightarrow> string \<Rightarrow> string \<times> string list \<times> string list \<Rightarrow> pyerror + file_entry list" where
  "scan_walk env directory (root, dirs, files) = collect (scan_file env directory root) files"

definition scan_directory :: "env \<Rightarrow> string \<Rightarrow> pyerror + directory_entry list" where
  "scan_directory env directory =
     (case os_walk env directory of
        Inl e \<Rightarrow> Inl e
      | Inr walked \<Rightarrow>
          (case collect (scan_walk env directory) walked of
             Inl e \<Rightarrow> Inl e
           | Inr files \<Rightarrow> Inr [(basename directory, files)]))"

definition walker :: "env \<Rightarrow> string list \<Rightarrow> pyerror + directory_entry list" where
  "walker env directories = collect (scan_directory env) directories"

text \<open>
  The renderer: the tree view of a function, of a file and of a directory; the
  functions of the tree, in the order of the tree; an entry of the flat list; the
  document.
\<close>

fun flat_entry_of :: "string \<Rightarrow> function_info \<Rightarrow> flat_entry" where
  "flat_entry_of relpath (func_name, func_docstring, params) =
     (relpath, func_name, param_list_of params, func_docstring_html_of func_docstring)"

fun render_function :: "function_info \<Rightarrow> string list" where
  \<open>render_function (func_name, func_docstring, params) =
     [''<li><span class="caret">Function: '' @ func_name @ ''</span>'',
      ''<ul class="nested">'',
      ''<li><strong>Parameters:</strong> '' @ param_list_of params @ ''</li>'',
      ''<li><strong>Docstring:</strong> '' @ func_docstring_html_of func_docstring @ ''</li>'',
      ''</ul></li>'']\<close>

fun render_file :: "file_entry \<Rightarrow> string list" where
  \<open>render_file (relpath, file_docstring, functions) =
     [''<li><span class="caret">'' @ relpath @ ''</span>'', ''<ul class="nested">'']
     @ (if file_docstring \<noteq> []
        then [''<li><strong>File Docstring:</strong> '' @ file_docstring @ ''</li>'']
        else [])
     @ concat (map render_function functions)
     @ [''</ul></li>'']\<close>

fun file_functions :: "file_entry \<Rightarrow> flat_entry list" where
  "file_functions (relpath, file_docstring, functions) = map (flat_entry_of relpath) functions"

fun render_directory :: "directory_entry \<Rightarrow> string list" where
  \<open>render_directory (name, files) =
     [''<li><span class="caret">'' @ name @ ''</span>'', ''<ul class="nested">'']
     @ concat (map render_file files)
     @ [''</ul></li>'']\<close>

fun directory_functions :: "directory_entry \<Rightarrow> flat_entry list" where
  "directory_functions (name, files) = concat (map file_functions files)"

definition tree_functions :: "directory_entry list \<Rightarrow> flat_entry list" where
  "tree_functions entries = concat (map directory_functions entries)"

fun render_flat_entry :: "flat_entry \<Rightarrow> string list" where
  \<open>render_flat_entry (filepath, func_name, param_list, func_docstring_html) =
     [''<li><strong>'' @ func_name @ ''</strong> in <em>'' @ filepath @ ''</em>'',
      ''<ul>'',
      ''<li><strong>Parameters:</strong> '' @ param_list @ ''</li>'',
      ''<li><strong>Docstring:</strong> '' @ func_docstring_html @ ''</li>'',
      ''</ul></li>'']\<close>

definition render :: "directory_entry list \<Rightarrow> string list" where
  \<open>render entries =
     html_prologue
     @ concat (map render_directory entries)
     @ [''</ul>'', ''<ul id="functionList">'', ''<h2>Function List</h2>'']
     @ concat (map render_flat_entry (tree_functions entries))
     @ [''</ul>'', ''</body></html>'']\<close>

section \<open>An example file system\<close>

text \<open>
  Source texts with the bodies that \<^verbatim>\<open>ast.parse\<close> returns for them (\<^verbatim>\<open>pass\<close> is a
  \<open>Node\<close> without children), and a file system that holds them. The parser of the
  example environments is the table of these texts; every other text is a syntax error
  for it.
\<close>

definition m_py :: string where
  \<open>m_py = ''"""Module M"""\<newline>def add(x, y):\<newline>    """Adds two numbers"""\<newline>''\<close>

definition m_body :: "ast list" where
  "m_body =
     [Expr (Constant (CStr ''Module M'')),
      FunctionDef ''add'' (Arguments [] [''x'', ''y''] None [] None)
        [Expr (Constant (CStr ''Adds two numbers''))] []]"

definition nested_py :: string where
  \<open>nested_py = ''def f():\<newline>    def g():\<newline>        pass\<newline>def h():\<newline>    pass\<newline>''\<close>

definition nested_body :: "ast list" where
  "nested_body =
     [FunctionDef ''f'' (Arguments [] [] None [] None)
        [FunctionDef ''g'' (Arguments [] [] None [] None) [Node []] []] [],
      FunctionDef ''h'' (Arguments [] [] None [] None) [Node []] []]"

definition indented_py :: string where
  \<open>indented_py = ''"""\<newline>    Module M\<newline>      details\<newline>"""\<newline>async def run():\<newline>    """  Runs.  """\<newline>''\<close>

definition indented_doc :: string where
  \<open>indented_doc = ''\<newline>    Module M\<newline>      details\<newline>''\<close>

definition indented_body :: "ast list" where
  "indented_body =
     [Expr (Constant (CStr indented_doc)),
      AsyncFunctionDef ''run'' (Arguments [] [] None [] None)
        [Expr (Constant (CStr ''  Runs.  ''))] []]"

definition posonly_py :: string where
  \<open>posonly_py = ''def f(a, /, b, *rest, c, **kw):\<newline>    pass\<newline>''\<close>

definition posonly_args :: arguments where
  "posonly_args = Arguments [''a''] [''b''] (Some ''rest'') [''c''] (Some ''kw'')"

definition posonly_body :: "ast list" where
  "posonly_body = [FunctionDef ''f'' posonly_args [Node []] []]"

definition bad_py :: string where
  \<open>bad_py = ''def broken(:\<newline>''\<close>

definition demo_parse :: "string \<Rightarrow> ast list option" where
  "demo_parse =
     map_of [(m_py, m_body), (nested_py, nested_body), (indented_py, indented_body),
             (posonly_py, posonly_body)]"

text \<open>
  \<^verbatim>\<open>os.path.relpath(path, start)\<close> on the paths of the examples, where \<^verbatim>\<open>path\<close> lies
  under \<^verbatim>\<open>start\<close>.
\<close>

definition demo_relpath :: "string \<Rightarrow> string \<Rightarrow> string" where
  "demo_relpath path start =
     (if take (Suc (length start)) path = start @ ''/''
      then drop (Suc (length start)) path
      else path)"

text \<open>
  The tree: \<^verbatim>\<open>/home\<close> holds the one project of the specification's end-to-end scenario;
  \<^verbatim>\<open>/work\<close> holds a project with a nested directory, files whose docstrings and
  parameters are of interest, a file with a syntax error, a file that cannot be
  decoded and a file that cannot be opened.
\<close>

definition demo_root :: fsnode where
  "demo_root =
     Dir [(''home'',
           Dir [(''proj'', Dir [(''m.py'', File (Text m_py))])]),
          (''work'',
           Dir [(''proj'',
                 Dir [(''m.py'', File (Text m_py)),
                      (''notes.txt'', File (Text ''to do'')),
                      (''sub'', Dir [(''nested.py'', File (Text nested_py))])]),
                (''samples'',
                 Dir [(''indented.py'', File (Text indented_py)),
                      (''posonly.py'', File (Text posonly_py))]),
                (''broken'',
                 Dir [(''bad.py'', File (Text bad_py)),
                      (''binary.py'', File ReadFails),
                      (''m.py'', File (Text m_py))]),
                (''locked'',
                 Dir [(''secret.py'', FileNoOpen),
                      (''m.py'', File (Text m_py))]),
                (''README'', File (Text ''read me''))])]"

definition demo_env :: env where
  "demo_env =
     \<lparr>fs_root = demo_root, fs_cwd = [''work''], open_w = (\<lambda>path. None),
      os_path_relpath = demo_relpath, ast_parse = demo_parse\<rparr>"

definition scenario_env :: env where
  "scenario_env = demo_env\<lparr>fs_cwd := [''home'']\<rparr>"

text \<open>The scenario after a first run has left its output file in the working directory.\<close>

definition rerun_root :: fsnode where
  \<open>rerun_root =
     Dir [(''home'',
           Dir [(''proj'', Dir [(''m.py'', File (Text m_py))]),
                (''documentation.html'', File (Text ''<html></html>''))])]\<close>

definition rerun_env :: env where
  "rerun_env = scenario_env\<lparr>fs_root := rerun_root\<rparr>"

text \<open>What the walker returns in the scenario.\<close>

definition scenario_entries :: "directory_entry list" where
  "scenario_entries =
     [(''proj'', [(''m.py'', ''Module M'', [(''add'', ''Adds two numbers'', [''x'', ''y''])])])]"

section \<open>Lemmas\<close>

subsection \<open>Traversal\<close>

lemma preorder_children: "preorder n = n # concat (map preorder (iter_child_nodes n))"
  by (cases n) simp_all

lemma walk_todo_append:
  "walk_todo (xs @ ys) = xs @ walk_todo (ys @ concat (map iter_child_nodes xs))"
  by (induction xs arbitrary: ys) simp_all

lemma walk_todo_level_order: "walk_todo ns = level_order ns"
proof (induction ns rule: level_order.induct)
  case 1
  show ?case by simp
next
  case (2 n ns)
  have "walk_todo (n # ns) = (n # ns) @ walk_todo (concat (map iter_child_nodes (n # ns)))"
    using walk_todo_append [of "n # ns" "[]"] by simp
  with 2 show ?case by simp
qed

lemma mset_walk_todo: "mset (walk_todo ns) = mset (concat (map preorder ns))"
proof (induction ns rule: walk_todo.induct)
  case 1
  show ?case by simp
next
  case (2 node todo)
  then show ?case by (simp add: preorder_children [of node])
qed

lemma for_loop_scan_node:
  "for_loop scan_node acc nodes = Inr (acc @ concat (map node_functions nodes))"
proof (induction nodes arbitrary: acc)
  case Nil
  show ?case by simp
next
  case (Cons node nodes)
  show ?case by (cases node) (simp_all add: Cons.IH)
qed

lemma get_function_info_parsed:
  assumes "open_r env filepath = Inr (Text text)" and "ast_parse env text = Some body"
  shows "get_function_info env filepath = Inr (concat (map node_functions (walk (Module body))))"
  using assms by (simp add: get_function_info_def read_parse_def for_loop_scan_node)

lemma node_functions_params:
  "map (\<lambda>f. snd (snd f)) (node_functions node) = map args (node_arguments node)"
  by (cases node) simp_all

subsection \<open>The loops of \<^verbatim>\<open>generate_html\<close> walk, then render\<close>

lemma for_loop_collect:
  assumes "\<And>s x. body s x =
             (case g x of
                Inl e \<Rightarrow> Inl e
              | Inr ys \<Rightarrow> Inr (fst s @ concat (map r ys), snd s @ concat (map q ys)))"
  shows "for_loop body st xs =
           (case collect g xs of
              Inl e \<Rightarrow> Inl e
            | Inr ys \<Rightarrow> Inr (fst st @ concat (map r ys), snd st @ concat (map q ys)))"
proof (induction xs arbitrary: st)
  case Nil
  show ?case by simp
next
  case (Cons x xs)
  show ?case
  proof (cases "g x")
    case (Inl e)
    then show ?thesis using assms [of st x] by simp
  next
    case (Inr ys)
    then have "body st x = Inr (fst st @ concat (map r ys), snd st @ concat (map q ys))"
      using assms [of st x] by simp
    then show ?thesis using Inr by (simp add: Cons.IH split: sum.splits)
  qed
qed

lemma foldl_function_step:
  "foldl (function_step relpath) st fs =
     (fst st @ concat (map render_function fs),
      snd st @ map (flat_entry_of relpath) fs)"
proof (induction fs arbitrary: st)
  case Nil
  show ?case by simp
next
  case (Cons f fs)
  obtain html_content all_functions where st: "st = (html_content, all_functions)"
    by (cases st)
  obtain func_name func_docstring params where f: "f = (func_name, func_docstring, params)"
    by (cases f)
  show ?case by (simp add: Cons.IH st f Let_def)
qed

lemma file_step_scan_file:
  "file_step env directory root st file =
     (case scan_file env directory root file of
        Inl e \<Rightarrow> Inl e
      | Inr entries \<Rightarrow>
          Inr (fst st @ concat (map render_file entries),
               snd st @ concat (map file_functions entries)))"
  by (simp add: file_step_def scan_file_def Let_def foldl_function_step split: sum.splits)

lemma walk_step_scan_walk:
  "walk_step env directory st w =
     (case scan_walk env directory w of
        Inl e \<Rightarrow> Inl e
      | Inr entries \<Rightarrow>
          Inr (fst st @ concat (map render_file entries),
               snd st @ concat (map file_functions entries)))"
proof -
  obtain root dirs files where w: "w = (root, dirs, files)"
    by (cases w)
  show ?thesis
    unfolding w walk_step.simps scan_walk.simps
    by (rule for_loop_collect) (rule file_step_scan_file)
qed

lemma directory_step_scan_directory:
  "directory_step env st directory =
     (case scan_directory env directory of
        Inl e \<Rightarrow> Inl e
      | Inr entries \<Rightarrow>
          Inr (fst st @ concat (map render_directory entries),
               snd st @ concat (map directory_functions entries)))"
proof -
  have "for_loop (walk_step env directory) st1 walked =
          (case collect (scan_walk env directory) walked of
             Inl e \<Rightarrow> Inl e
           | Inr entries \<Rightarrow>
               Inr (fst st1 @ concat (map render_file entries),
                    snd st1 @ concat (map file_functions entries)))" for st1 walked
    by (rule for_loop_collect) (rule walk_step_scan_walk)
  then show ?thesis
    by (simp add: directory_step_def scan_directory_def Let_def split: sum.splits)
qed

lemma foldl_flat_step:
  "foldl flat_step html_content entries = html_content @ concat (map render_flat_entry entries)"
proof (induction entries arbitrary: html_content)
  case Nil
  show ?case by simp
next
  case (Cons entry entries)
  obtain filepath func_name param_list func_docstring_html
    where entry: "entry = (filepath, func_name, param_list, func_docstring_html)"
    by (cases entry)
  show ?case by (simp add: Cons.IH entry)
qed

lemma build_html_render:
  "build_html env directories =
     (case walker env (py_iter directories) of
        Inl e \<Rightarrow> Inl e
      | Inr entries \<Rightarrow> Inr (render entries, tree_functions entries))"
proof -
  have "for_loop (directory_step env) st (py_iter directories) =
          (case walker env (py_iter directories) of
             Inl e \<Rightarrow> Inl e
           | Inr entries \<Rightarrow>
               Inr (fst st @ concat (map render_directory entries),
                    snd st @ concat (map directory_functions entries)))" for st
    unfolding walker_def
    by (rule for_loop_collect) (rule directory_step_scan_directory)
  then show ?thesis
    by (simp add: build_html_def render_def tree_functions_def Let_def foldl_flat_step
        split: sum.splits)
qed

lemma for_loop_file_step_from_empty:
  "for_loop (file_step env directory root) st files =
     (case for_loop (file_step env directory root) ([], []) files of
        Inl e \<Rightarrow> Inl e
      | Inr st' \<Rightarrow> Inr (fst st @ fst st', snd st @ snd st'))"
proof -
  have "for_loop (file_step env directory root) s files =
          (case collect (scan_file env directory root) files of
             Inl e \<Rightarrow> Inl e
           | Inr entries \<Rightarrow>
               Inr (fst s @ concat (map render_file entries),
                    snd s @ concat (map file_functions entries)))" for s
    by (rule for_loop_collect) (rule file_step_scan_file)
  then show ?thesis by (simp split: sum.splits)
qed

lemma file_step_no_information:
  assumes "endswith file ''.py''"
    and "get_file_docstring env (path_join root file) = Inr []"
    and "get_function_info env (path_join root file) = Inr []"
  shows \<open>file_step env directory root st file =
           Inr (fst st @ [''<li><span class="caret">''
                            @ os_path_relpath env (path_join root file) directory @ ''</span>'',
                          ''<ul class="nested">'', ''</ul></li>''],
                snd st)\<close>
  using assms by (simp add: file_step_def Let_def)

lemma for_loop_file_step_no_information:
  assumes "endswith file ''.py''"
    and "get_file_docstring env (path_join root file) = Inr []"
    and "get_function_info env (path_join root file) = Inr []"
  shows \<open>for_loop (file_step env directory root) st (file # files) =
           (case for_loop (file_step env directory root) ([], []) files of
              Inl e \<Rightarrow> Inl e
            | Inr st' \<Rightarrow>
                Inr (fst st @ [''<li><span class="caret">''
                                 @ os_path_relpath env (path_join root file) directory @ ''</span>'',
                               ''<ul class="nested">'', ''</ul></li>''] @ fst st',
                     snd st @ snd st'))\<close>
proof -
  let ?st1 = \<open>(fst st @ [''<li><span class="caret">''
                            @ os_path_relpath env (path_join root file) directory @ ''</span>'',
                          ''<ul class="nested">'', ''</ul></li>''],
                snd st)\<close>
  have "for_loop (file_step env directory root) st (file # files)
          = for_loop (file_step env directory root) ?st1 files"
    using file_step_no_information [OF assms, of directory st] by simp
  also have "\<dots> = (case for_loop (file_step env directory root) ([], []) files of
                       Inl e \<Rightarrow> Inl e
                     | Inr st' \<Rightarrow> Inr (fst ?st1 @ fst st', snd ?st1 @ snd st'))"
    by (rule for_loop_file_step_from_empty)
  finally show ?thesis by (simp split: sum.splits)
qed

lemma collect_cong:
  assumes "\<And>x. x \<in> set xs \<Longrightarrow> g1 x = g2 x"
  shows "collect g1 xs = collect g2 xs"
  using assms by (induction xs) (simp_all split: sum.splits)

lemma scan_file_same:
  assumes "os_path_relpath env1 = os_path_relpath env2"
    and "ast_parse env1 = ast_parse env2"
    and "endswith file ''.py'' \<longrightarrow>
           open_r env1 (path_join root file) = open_r env2 (path_join root file)"
  shows "scan_file env1 directory root file = scan_file env2 directory root file"
proof (cases "endswith file ''.py''")
  case True
  have rp: "read_parse env1 = read_parse env2"
    using assms(2) by (simp add: read_parse_def fun_eq_iff split: file_content.splits)
  have o: "open_r env1 (path_join root file) = open_r env2 (path_join root file)"
    using assms(3) True by simp
  show ?thesis
    unfolding scan_file_def get_file_docstring_def get_function_info_def rp o assms(1) ..
next
  case False
  then show ?thesis by (simp add: scan_file_def)
qed

lemma scan_directory_same:
  assumes "os_path_relpath env1 = os_path_relpath env2"
    and "ast_parse env1 = ast_parse env2"
    and "os_walk env1 directory = os_walk env2 directory"
    and "\<forall>walked. os_walk env1 directory = Inr walked \<longrightarrow>
           (\<forall>(root, dirs, files) \<in> set walked. \<forall>file \<in> set files.
              endswith file ''.py'' \<longrightarrow>
                open_r env1 (path_join root file) = open_r env2 (path_join root file))"
  shows "scan_directory env1 directory = scan_directory env2 directory"
proof (cases "os_walk env1 directory")
  case (Inl e)
  then show ?thesis using assms(3) by (simp add: scan_directory_def)
next
  case (Inr walked)
  have "scan_walk env1 directory w = scan_walk env2 directory w"
    if "w \<in> set walked" for w
  proof -
    obtain root dirs files where w: "w = (root, dirs, files)"
      by (cases w)
    have "scan_file env1 directory root f = scan_file env2 directory root f"
      if "f \<in> set files" for f
      using assms(1,2,4) Inr w \<open>w \<in> set walked\<close> that
      by (intro scan_file_same) auto
    then show ?thesis
      unfolding w scan_walk.simps by (rule collect_cong)
  qed
  then have "collect (scan_walk env1 directory) walked
               = collect (scan_walk env2 directory) walked"
    by (rule collect_cong)
  then show ?thesis
    using Inr assms(3) by (simp add: scan_directory_def)
qed

lemma os_walk_not_directory:
  assumes "CHR 0x00 \<notin> set directory"
    and "\<forall>entries. resolve env directory \<noteq> Some (Dir entries)"
  shows "os_walk env directory = Inr []"
proof (cases "resolve env directory")
  case None
  then show ?thesis using assms(1) by (simp add: os_walk_def)
next
  case (Some n)
  with assms show ?thesis by (cases n) (simp_all add: os_walk_def)
qed

lemma join_str_Cons: "join_str sep (x # xs) = x @ concat (map ((@) sep) xs)"
  by (induction xs arbitrary: x) simp_all

subsection \<open>\<^verbatim>\<open>inspect.cleandoc\<close>\<close>

text \<open>
  A literal of one line, without a tab and without leading white space, is its own
  cleaned form.
\<close>

lemma expandtabs_from_no_tab: "CHR 0x09 \<notin> set s \<Longrightarrow> expandtabs_from j s = s"
  by (induction s arbitrary: j) auto

lemma split_chr_absent: "c \<notin> set s \<Longrightarrow> split_chr c s = [s]"
  by (induction s) auto

lemma cleandoc_plain:
  assumes "CHR 0x09 \<notin> set doc" and "CHR 0x0A \<notin> set doc"
    and "lstrip doc = doc"
  shows "cleandoc doc = doc"
  using assms
  by (cases "doc = []")
     (simp_all add: cleandoc_def expandtabs_def expandtabs_from_no_tab split_chr_absent
       sys_maxsize_def)

lemma cleandoc_plain_example: "cleandoc ''Adds two numbers'' = ''Adds two numbers''"
  by (rule cleandoc_plain) (simp_all add: lstrip_def isspace_def)

subsection \<open>Evaluation in the example environments\<close>

lemma demo_env_simps:
  "fs_root demo_env = demo_root" "fs_cwd demo_env = [''work'']"
  "open_w demo_env = (\<lambda>path. None)"
  "os_path_relpath demo_env = demo_relpath" "ast_parse demo_env = demo_parse"
  by (simp_all add: demo_env_def)

lemma scenario_env_simps:
  "fs_root scenario_env = demo_root" "fs_cwd scenario_env = [''home'']"
  "open_w scenario_env = (\<lambda>path. None)"
  "os_path_relpath scenario_env = demo_relpath" "ast_parse scenario_env = demo_parse"
  by (simp_all add: scenario_env_def demo_env_def)

lemma rerun_env_simps:
  "fs_root rerun_env = rerun_root" "fs_cwd rerun_env = [''home'']"
  "open_w rerun_env = (\<lambda>path. None)"
  "os_path_relpath rerun_env = demo_relpath" "ast_parse rerun_env = demo_parse"
  by (simp_all add: rerun_env_def scenario_env_def demo_env_def)

lemma demo_parse_simps:
  "demo_parse m_py = Some m_body" "demo_parse nested_py = Some nested_body"
  "demo_parse indented_py = Some indented_body" "demo_parse posonly_py = Some posonly_body"
  "demo_parse bad_py = None"
  by (simp_all add: demo_parse_def m_py_def nested_py_def bad_py_def indented_py_def posonly_py_def)

lemmas fs_defs =
  demo_env_simps scenario_env_simps demo_parse_simps demo_root_def
  resolve_def open_r_def os_walk_def path_join_def endswith_def basename_def

lemmas eval_defs =
  walker_def scan_directory_def scan_file_def get_file_docstring_def get_function_info_def
  read_parse_def for_loop_scan_node walk_def fs_defs

lemmas cleandoc_defs =
  cleandoc_def expandtabs_def lstrip_def isspace_def sys_maxsize_def margin_step_def

lemma cleandoc_indented_doc: "cleandoc indented_doc = ''Module M\<newline>  details''"
  by (simp add: indented_doc_def cleandoc_def expandtabs_def lstrip_def isspace_def
      sys_maxsize_def margin_step_def)

lemma cleandoc_runs: "cleandoc ''  Runs.  '' = ''Runs.  ''"
  by (simp add: cleandoc_def expandtabs_def lstrip_def isspace_def
      sys_maxsize_def margin_step_def)

lemma open_indented: "open_r demo_env ''samples/indented.py'' = Inr (Text indented_py)"
  by (simp add: fs_defs)

lemma parse_indented:
  "ast_parse demo_env indented_py =
     Some (Expr (Constant (CStr indented_doc))
           # [AsyncFunctionDef ''run'' (Arguments [] [] None [] None)
                [Expr (Constant (CStr ''  Runs.  ''))] []])"
  by (simp add: fs_defs indented_body_def)

lemma open_nested: "open_r demo_env ''proj/sub/nested.py'' = Inr (Text nested_py)"
  by (simp add: fs_defs)

lemma parse_nested: "ast_parse demo_env nested_py = Some nested_body"
  by (simp add: fs_defs)

lemma open_posonly: "open_r demo_env ''samples/posonly.py'' = Inr (Text posonly_py)"
  by (simp add: fs_defs)

lemma parse_posonly: "ast_parse demo_env posonly_py = Some posonly_body"
  by (simp add: fs_defs)

lemma open_bad: "open_r demo_env (path_join ''broken'' ''bad.py'') = Inr (Text bad_py)"
  by (simp add: fs_defs)

lemma open_binary: "open_r demo_env (path_join ''broken'' ''binary.py'') = Inr ReadFails"
  by (simp add: fs_defs)

lemma relpath_broken:
  "os_path_relpath demo_env (path_join ''broken'' ''bad.py'') ''broken'' = ''bad.py''"
  "os_path_relpath demo_env (path_join ''broken'' ''binary.py'') ''broken'' = ''binary.py''"
  by (simp_all add: demo_env_simps demo_relpath_def path_join_def endswith_def)

lemma docstring_m_py: "get_file_docstring demo_env ''broken/m.py'' = Inr ''Module M''"
  by (simp add: get_file_docstring_def read_parse_def fs_defs m_body_def cleandoc_defs)

lemma functions_m_py:
  "get_function_info demo_env ''broken/m.py'' = Inr [(''add'', ''Adds two numbers'', [''x'', ''y''])]"
  by (simp add: get_function_info_def read_parse_def for_loop_scan_node walk_def fs_defs
      m_body_def cleandoc_defs)

lemma broken_m_py:
  \<open>for_loop (file_step demo_env ''broken'' ''broken'') ([], []) [''m.py''] =
     Inr ([''<li><span class="caret">m.py</span>'',
           ''<ul class="nested">'',
           ''<li><strong>File Docstring:</strong> Module M</li>'',
           ''<li><span class="caret">Function: add</span>'',
           ''<ul class="nested">'',
           ''<li><strong>Parameters:</strong> x, y</li>'',
           ''<li><strong>Docstring:</strong> Adds two numbers</li>'',
           ''</ul></li>'',
           ''</ul></li>''],
          [(''m.py'', ''add'', ''x, y'', ''Adds two numbers'')])\<close>
proof -
  have j: "path_join ''broken'' ''m.py'' = ''broken/m.py''"
    by (simp add: path_join_def endswith_def)
  show ?thesis
    by (simp add: file_step_def Let_def j docstring_m_py functions_m_py endswith_def
        demo_env_simps demo_relpath_def param_list_of_def func_docstring_html_of_def)
qed

lemma walk_scenario_proj: "os_walk scenario_env ''proj'' = Inr [(''proj'', [], [''m.py''])]"
  by (simp add: fs_defs)

lemma walk_rerun_proj: "os_walk rerun_env ''proj'' = Inr [(''proj'', [], [''m.py''])]"
  by (simp add: rerun_env_simps rerun_root_def fs_defs)

lemma open_scenario_m: "open_r scenario_env (path_join ''proj'' ''m.py'') = Inr (Text m_py)"
  by (simp add: fs_defs)

lemma open_rerun_m: "open_r rerun_env (path_join ''proj'' ''m.py'') = Inr (Text m_py)"
  by (simp add: rerun_env_simps rerun_root_def fs_defs)

lemma scenario_walker:
  "\<exists>entries. walker scenario_env (py_iter (PStr ''documentation.html'')) = Inr entries"
  by (simp add: eval_defs)

text \<open>
  The end-to-end scenario of the specification: \<^verbatim>\<open>generate_html(['proj'],
  'documentation.html')\<close> in \<^verbatim>\<open>/home\<close>.
\<close>

lemma scenario_walker_proj: "walker scenario_env [''proj''] = Inr scenario_entries"
  by (simp add: eval_defs m_body_def cleandoc_defs demo_relpath_def scenario_entries_def)

lemma scenario_document:
  "generate_html scenario_env (PList [''proj'']) (PStr ''documentation.html'') =
     Inr \<lparr>written_path = ''documentation.html'',
          written_text = join_str [CHR 0x0A] (render scenario_entries),
          printed = ''HTML documentation written to documentation.html''\<rparr>"
  by (simp add: generate_html_def build_html_render scenario_walker_proj scenario_env_simps)

lemma scenario_views:
  \<open>concat (map render_directory scenario_entries) =
     [''<li><span class="caret">proj</span>'',
      ''<ul class="nested">'',
      ''<li><span class="caret">m.py</span>'',
      ''<ul class="nested">'',
      ''<li><strong>File Docstring:</strong> Module M</li>'',
      ''<li><span class="caret">Function: add</span>'',
      ''<ul class="nested">'',
      ''<li><strong>Parameters:</strong> x, y</li>'',
      ''<li><strong>Docstring:</strong> Adds two numbers</li>'',
      ''</ul></li>'',
      ''</ul></li>'',
      ''</ul></li>'']\<close>
  \<open>concat (map render_flat_entry (tree_functions scenario_entries)) =
     [''<li><strong>add</strong> in <em>m.py</em>'',
      ''<ul>'',
      ''<li><strong>Parameters:</strong> x, y</li>'',
      ''<li><strong>Docstring:</strong> Adds two numbers</li>'',
      ''</ul></li>'']\<close>
  by (simp_all add: scenario_entries_def tree_functions_def param_list_of_def
      func_docstring_html_of_def)

section \<open>The claims\<close>

subsection \<open>C1: the entry point\<close>

text \<open>
  Whatever the environment and the arguments, \<^verbatim>\<open>main\<close> does not return: it calls
  \<^verbatim>\<open>generate_html(output, dirs)\<close>, whose parameters are \<^verbatim>\<open>(directories, output_file)\<close>,
  so that \<^verbatim>\<open>open\<close> is given the list of the arguments.
\<close>

lemma main_never_returns: "main env argv \<noteq> Inr out"
  by (simp add: main_def generate_html_def split: sum.splits)

lemma main_TypeError_if_built:
  "build_html env (PStr ''documentation.html'') = Inr st \<Longrightarrow> main env argv = Inl TypeError"
  by (simp add: main_def generate_html_def)

text \<open>
  C1 says that a run of the entry point writes the document to \<^verbatim>\<open>documentation.html\<close>
  and prints \<^verbatim>\<open>HTML documentation written to documentation.html\<close>. The code does not:
  run as \<^verbatim>\<open>swoosh.py proj\<close> in \<^verbatim>\<open>/home\<close> of the example tree, \<^verbatim>\<open>main\<close> loops over the
  characters of \<^verbatim>\<open>'documentation.html'\<close> as directories (one of them is \<^verbatim>\<open>'.'\<close>, which
  is walked), then raises \<^verbatim>\<open>TypeError\<close> when it opens the argument list as the output
  file. Nothing is written and nothing is printed.
\<close>

theorem main_raises_TypeError: "main scenario_env [''proj''] = Inl TypeError"
proof -
  obtain entries where "walker scenario_env (py_iter (PStr ''documentation.html'')) = Inr entries"
    using scenario_walker by blast
  then have "build_html scenario_env (PStr ''documentation.html'')
               = Inr (render entries, tree_functions entries)"
    by (simp add: build_html_render)
  then show ?thesis by (rule main_TypeError_if_built)
qed

subsection \<open>C2: docstrings\<close>

text \<open>
  C2 as stated, that the extracted docstring is the content of the literal, unchanged,
  fails: the module docstring of \<^verbatim>\<open>samples/indented.py\<close> is written over several
  indented lines, and the extracted docstring has lost the indentation and the blank
  first and last lines.
\<close>

theorem docstring_not_verbatim:
  "open_r demo_env ''samples/indented.py'' = Inr (Text indented_py)
   \<and> map_option hd (ast_parse demo_env indented_py) = Some (Expr (Constant (CStr indented_doc)))
   \<and> get_file_docstring demo_env ''samples/indented.py'' = Inr ''Module M\<newline>  details''
   \<and> ''Module M\<newline>  details'' \<noteq> indented_doc"
  by (simp add: get_file_docstring_def read_parse_def open_indented parse_indented
      cleandoc_indented_doc) (simp add: indented_doc_def)

text \<open>
  C2, amended: for a file that opens, reads and parses, and whose module body starts
  with a string literal, the file docstring is \<^verbatim>\<open>inspect.cleandoc\<close> of the content of
  the literal; and the loop over the nodes records, for a function or async function
  whose body starts with a string literal, \<^verbatim>\<open>inspect.cleandoc\<close> of its content.
\<close>

theorem docstring_is_cleandoc:
  assumes "open_r env filepath = Inr (Text text)"
    and "ast_parse env text = Some (Expr (Constant (CStr doc)) # rest)"
  shows "get_file_docstring env filepath = Inr (cleandoc doc)
         \<and> scan_node acc (FunctionDef name a (Expr (Constant (CStr fdoc)) # body) others)
             = Inr (acc @ [(name, cleandoc fdoc, args a)])
         \<and> scan_node acc (AsyncFunctionDef name a (Expr (Constant (CStr fdoc)) # body) others)
             = Inr (acc @ [(name, cleandoc fdoc, args a)])"
  using assms by (simp add: get_file_docstring_def read_parse_def)

theorem docstring_is_cleandoc_witness:
  "open_r demo_env ''samples/indented.py'' = Inr (Text indented_py)
   \<and> ast_parse demo_env indented_py =
       Some (Expr (Constant (CStr indented_doc))
             # [AsyncFunctionDef ''run'' (Arguments [] [] None [] None)
                  [Expr (Constant (CStr ''  Runs.  ''))] []])
   \<and> get_file_docstring demo_env ''samples/indented.py'' = Inr ''Module M\<newline>  details''
   \<and> scan_node [] (AsyncFunctionDef ''run'' (Arguments [] [] None [] None)
                      [Expr (Constant (CStr ''  Runs.  ''))] [])
       = Inr [(''run'', ''Runs.  '', [])]"
  using docstring_is_cleandoc [OF open_indented parse_indented,
      of "[]" "''run''" "Arguments [] [] None [] None" "''  Runs.  ''" "[]" "[]"]
    open_indented parse_indented
  by (simp only: cleandoc_indented_doc cleandoc_runs append_Nil arguments.sel simp_thms)

subsection \<open>C3: files that cannot be read\<close>

text \<open>
  C3 as stated, that no error while reading a selected file aborts the walk, fails
  for a file that cannot be opened: \<^verbatim>\<open>open\<close> stands outside the \<^verbatim>\<open>try\<close> block, and
  its exception leaves \<^verbatim>\<open>generate_html\<close>. Here \<^verbatim>\<open>m.py\<close>, which follows
  \<^verbatim>\<open>secret.py\<close>, is never processed and no document is written.
\<close>

theorem open_failure_aborts:
  "open_r demo_env (path_join ''locked'' ''secret.py'') = Inl OSError
   \<and> os_walk demo_env ''locked'' = Inr [(''locked'', [], [''secret.py'', ''m.py''])]
   \<and> generate_html demo_env (PList [''locked'']) (PStr ''documentation.html'') = Inl OSError"
  by (simp add: generate_html_def build_html_render eval_defs)

text \<open>
  C3, amended: for a selected file that opens and whose \<^verbatim>\<open>read\<close> raises (an I/O or
  decoding error), both readers return their empty result, the file contributes an
  entry without docstring and without functions, and the files after it contribute
  what they contribute on their own.
\<close>

theorem read_failure_is_empty_entry:
  assumes "endswith file ''.py''"
    and "open_r env (path_join root file) = Inr ReadFails"
  shows \<open>get_file_docstring env (path_join root file) = Inr []
         \<and> get_function_info env (path_join root file) = Inr []
         \<and> for_loop (file_step env directory root) st (file # files) =
             (case for_loop (file_step env directory root) ([], []) files of
                Inl e \<Rightarrow> Inl e
              | Inr st' \<Rightarrow>
                  Inr (fst st @ [''<li><span class="caret">''
                                   @ os_path_relpath env (path_join root file) directory @ ''</span>'',
                                 ''<ul class="nested">'', ''</ul></li>''] @ fst st',
                       snd st @ snd st'))\<close>
proof -
  have d: "get_file_docstring env (path_join root file) = Inr []"
    using assms by (simp add: get_file_docstring_def read_parse_def)
  have f: "get_function_info env (path_join root file) = Inr []"
    using assms by (simp add: get_function_info_def read_parse_def)
  show ?thesis
    using d f for_loop_file_step_no_information [OF assms(1) d f] by simp
qed

theorem read_failure_is_empty_entry_witness:
  \<open>endswith ''binary.py'' ''.py''
   \<and> open_r demo_env (path_join ''broken'' ''binary.py'') = Inr ReadFails
   \<and> get_file_docstring demo_env (path_join ''broken'' ''binary.py'') = Inr []
   \<and> get_function_info demo_env (path_join ''broken'' ''binary.py'') = Inr []
   \<and> for_loop (file_step demo_env ''broken'' ''broken'') ([], []) [''binary.py'', ''m.py''] =
       Inr ([''<li><span class="caret">binary.py</span>'',
             ''<ul class="nested">'',
             ''</ul></li>'',
             ''<li><span class="caret">m.py</span>'',
             ''<ul class="nested">'',
             ''<li><strong>File Docstring:</strong> Module M</li>'',
             ''<li><span class="caret">Function: add</span>'',
             ''<ul class="nested">'',
             ''<li><strong>Parameters:</strong> x, y</li>'',
             ''<li><strong>Docstring:</strong> Adds two numbers</li>'',
             ''</ul></li>'',
             ''</ul></li>''],
            [(''m.py'', ''add'', ''x, y'', ''Adds two numbers'')])\<close>
proof -
  have e: "endswith ''binary.py'' ''.py''"
    by (simp add: endswith_def)
  show ?thesis
    using read_failure_is_empty_entry [OF e open_binary, of "''broken''" "([], [])" "[''m.py'']"]
      e open_binary
    by (simp add: broken_m_py relpath_broken del: for_loop.simps)
qed

subsection \<open>C4: the order of the scan\<close>

text \<open>
  C4 as stated, that the functions are listed in pre-order, fails: in
  \<^verbatim>\<open>proj/sub/nested.py\<close> the function \<^verbatim>\<open>g\<close> is defined inside \<^verbatim>\<open>f\<close> and before \<^verbatim>\<open>h\<close>;
  pre-order lists \<^verbatim>\<open>f, g, h\<close>, the scan \<^verbatim>\<open>f, h, g\<close>.
\<close>

theorem walk_order_not_preorder:
  "ast_parse demo_env nested_py = Some nested_body
   \<and> map fst (concat (map node_functions (preorder (Module nested_body)))) = [''f'', ''g'', ''h'']
   \<and> map_sum id (map fst) (get_function_info demo_env ''proj/sub/nested.py'')
       = Inr [''f'', ''h'', ''g'']"
  by (simp add: get_function_info_parsed [OF open_nested parse_nested] parse_nested walk_def
      nested_body_def)

text \<open>
  C4, amended: for a file that opens, reads and parses, the scan returns one entry
  for every function and async function definition of the tree, at any depth (the
  nodes it visits are the nodes of the tree, each once), in level order: by depth
  first, and from left to right within one depth.
\<close>

theorem functions_in_level_order:
  assumes "open_r env filepath = Inr (Text text)"
    and "ast_parse env text = Some body"
  shows "get_function_info env filepath
           = Inr (concat (map node_functions (level_order [Module body])))
         \<and> mset (level_order [Module body]) = mset (preorder (Module body))"
proof -
  have "mset (level_order [Module body]) = mset (concat (map preorder [Module body]))"
    using mset_walk_todo [of "[Module body]"] by (simp only: walk_todo_level_order)
  then show ?thesis
    using get_function_info_parsed [OF assms] by (simp add: walk_def walk_todo_level_order)
qed

theorem functions_in_level_order_witness:
  "open_r demo_env ''proj/sub/nested.py'' = Inr (Text nested_py)
   \<and> ast_parse demo_env nested_py = Some nested_body
   \<and> get_function_info demo_env ''proj/sub/nested.py''
       = Inr (concat (map node_functions (level_order [Module nested_body])))
   \<and> mset (level_order [Module nested_body]) = mset (preorder (Module nested_body))
   \<and> map fst (concat (map node_functions (level_order [Module nested_body])))
       = [''f'', ''h'', ''g'']"
proof -
  have "map fst (concat (map node_functions (level_order [Module nested_body])))
          = [''f'', ''h'', ''g'']"
    by (simp add: nested_body_def)
  then show ?thesis
    using functions_in_level_order [OF open_nested parse_nested] open_nested parse_nested
    by blast
qed

subsection \<open>C5: parameters\<close>

text \<open>
  C5 as stated, that the name of every positional parameter is recorded, fails for
  positional-only parameters: for \<^verbatim>\<open>def f(a, /, b, *rest, c, **kw)\<close> only \<^verbatim>\<open>b\<close> is
  recorded.
\<close>

theorem positional_only_dropped:
  "ast_parse demo_env posonly_py = Some [FunctionDef ''f'' posonly_args [Node []] []]
   \<and> positional_parameters posonly_args = [''a'', ''b'']
   \<and> get_function_info demo_env ''samples/posonly.py'' = Inr [(''f'', [], [''b''])]"
  by (simp add: get_function_info_parsed [OF open_posonly parse_posonly] parse_posonly walk_def
      posonly_body_def posonly_args_def positional_parameters_def)

text \<open>
  C5, amended: for a file that opens, reads and parses, the parameters recorded for
  each function definition are the names in the \<^verbatim>\<open>args\<close> field of its \<^verbatim>\<open>arguments\<close>, in
  order: the parameters that can be passed by position or by keyword. Positional-only,
  variadic and keyword-only parameters are not recorded.
\<close>

theorem params_are_args_field:
  assumes "open_r env filepath = Inr (Text text)"
    and "ast_parse env text = Some body"
  shows "\<exists>fs. get_function_info env filepath = Inr fs
              \<and> map (\<lambda>f. snd (snd f)) fs
                  = map args (concat (map node_arguments (walk (Module body))))"
proof -
  have "map (\<lambda>f. snd (snd f)) (concat (map node_functions nodes))
          = map args (concat (map node_arguments nodes))" for nodes
    by (induction nodes) (simp_all add: node_functions_params)
  then show ?thesis
    using get_function_info_parsed [OF assms] by simp
qed

theorem params_are_args_field_witness:
  "open_r demo_env ''samples/posonly.py'' = Inr (Text posonly_py)
   \<and> ast_parse demo_env posonly_py = Some posonly_body
   \<and> (\<exists>fs. get_function_info demo_env ''samples/posonly.py'' = Inr fs
             \<and> map (\<lambda>f. snd (snd f)) fs
                 = map args (concat (map node_arguments (walk (Module posonly_body)))))
   \<and> map args (concat (map node_arguments (walk (Module posonly_body)))) = [[''b'']]"
proof -
  have "map args (concat (map node_arguments (walk (Module posonly_body)))) = [[''b'']]"
    by (simp add: walk_def posonly_body_def posonly_args_def)
  then show ?thesis
    using params_are_args_field [OF open_posonly parse_posonly] open_posonly parse_posonly
    by blast
qed

subsection \<open>C6: files that do not parse\<close>

text \<open>
  C6: for a selected file that opens and reads, and whose text the parser rejects,
  both readers return their empty result without raising, the file contributes an
  entry without docstring and without functions, and the files after it contribute
  what they contribute on their own.
\<close>

theorem parse_failure_is_empty_entry:
  assumes "endswith file ''.py''"
    and "open_r env (path_join root file) = Inr (Text text)"
    and "ast_parse env text = None"
  shows \<open>get_file_docstring env (path_join root file) = Inr []
         \<and> get_function_info env (path_join root file) = Inr []
         \<and> for_loop (file_step env directory root) st (file # files) =
             (case for_loop (file_step env directory root) ([], []) files of
                Inl e \<Rightarrow> Inl e
              | Inr st' \<Rightarrow>
                  Inr (fst st @ [''<li><span class="caret">''
                                   @ os_path_relpath env (path_join root file) directory @ ''</span>'',
                                 ''<ul class="nested">'', ''</ul></li>''] @ fst st',
                       snd st @ snd st'))\<close>
proof -
  have d: "get_file_docstring env (path_join root file) = Inr []"
    using assms by (simp add: get_file_docstring_def read_parse_def)
  have f: "get_function_info env (path_join root file) = Inr []"
    using assms by (simp add: get_function_info_def read_parse_def)
  show ?thesis
    using d f for_loop_file_step_no_information [OF assms(1) d f] by simp
qed

theorem parse_failure_is_empty_entry_witness:
  \<open>endswith ''bad.py'' ''.py''
   \<and> open_r demo_env (path_join ''broken'' ''bad.py'') = Inr (Text bad_py)
   \<and> ast_parse demo_env bad_py = None
   \<and> get_file_docstring demo_env (path_join ''broken'' ''bad.py'') = Inr []
   \<and> get_function_info demo_env (path_join ''broken'' ''bad.py'') = Inr []
   \<and> for_loop (file_step demo_env ''broken'' ''broken'') ([], []) [''bad.py'', ''m.py''] =
       Inr ([''<li><span class="caret">bad.py</span>'',
             ''<ul class="nested">'',
             ''</ul></li>'',
             ''<li><span class="caret">m.py</span>'',
             ''<ul class="nested">'',
             ''<li><strong>File Docstring:</strong> Module M</li>'',
             ''<li><span class="caret">Function: add</span>'',
             ''<ul class="nested">'',
             ''<li><strong>Parameters:</strong> x, y</li>'',
             ''<li><strong>Docstring:</strong> Adds two numbers</li>'',
             ''</ul></li>'',
             ''</ul></li>''],
            [(''m.py'', ''add'', ''x, y'', ''Adds two numbers'')])\<close>
proof -
  have e: "endswith ''bad.py'' ''.py''"
    by (simp add: endswith_def)
  have p: "ast_parse demo_env bad_py = None"
    by (simp add: fs_defs)
  show ?thesis
    using parse_failure_is_empty_entry [OF e open_bad p, of "''broken''" "([], [])" "[''m.py'']"]
      e open_bad p
    by (simp add: broken_m_py relpath_broken del: for_loop.simps)
qed

subsection \<open>C7: the rendering of a function\<close>

text \<open>
  C7: in the tree view and, through the entry kept in \<^verbatim>\<open>all_functions\<close>, in the flat
  list, the parameters of a function are its names with \<^verbatim>\<open>', '\<close> between them, or
  \<^verbatim>\<open>No parameters\<close> when there is none, and its docstring is rendered as
  \<^verbatim>\<open>No docstring\<close> when it is empty.
\<close>

theorem function_rendering:
  \<open>function_step relpath (html_content, all_functions) (func_name, func_docstring, params) =
     (html_content @
        [''<li><span class="caret">Function: '' @ func_name @ ''</span>'',
         ''<ul class="nested">'',
         ''<li><strong>Parameters:</strong> ''
           @ (case params of
                [] \<Rightarrow> ''No parameters''
              | p # ps \<Rightarrow> p @ concat (map (\<lambda>q. '', '' @ q) ps))
           @ ''</li>'',
         ''<li><strong>Docstring:</strong> ''
           @ (if func_docstring = [] then ''No docstring'' else func_docstring)
           @ ''</li>'',
         ''</ul></li>''],
      all_functions @
        [(relpath, func_name,
          (case params of
             [] \<Rightarrow> ''No parameters''
           | p # ps \<Rightarrow> p @ concat (map (\<lambda>q. '', '' @ q) ps)),
          (if func_docstring = [] then ''No docstring'' else func_docstring))])
   \<and> foldl flat_step flat_html
         (snd (function_step relpath (html_content, []) (func_name, func_docstring, params))) =
       flat_html @
         [''<li><strong>'' @ func_name @ ''</strong> in <em>'' @ relpath @ ''</em>'',
          ''<ul>'',
          ''<li><strong>Parameters:</strong> ''
            @ (case params of
                 [] \<Rightarrow> ''No parameters''
               | p # ps \<Rightarrow> p @ concat (map (\<lambda>q. '', '' @ q) ps))
            @ ''</li>'',
          ''<li><strong>Docstring:</strong> ''
            @ (if func_docstring = [] then ''No docstring'' else func_docstring)
            @ ''</li>'',
          ''</ul></li>'']\<close>
  by (cases params)
     (simp_all add: Let_def param_list_of_def func_docstring_html_of_def join_str_Cons)

subsection \<open>C8: the flat list and the tree\<close>

text \<open>
  C8: for every input, the document is the prologue, the tree view of the entries the
  walker returns, and the flat list of the functions of that tree, in the order of the
  tree (roots in the order given, files in the order of the enumeration, functions in
  the order of the scan).
\<close>

theorem flat_list_follows_tree:
  \<open>generate_html env directories (PStr output_file) =
     (case walker env (py_iter directories) of
        Inl e \<Rightarrow> Inl e
      | Inr entries \<Rightarrow>
          (case open_w env output_file of
             Some e \<Rightarrow> Inl e
           | None \<Rightarrow>
               Inr \<lparr>written_path = output_file,
                    written_text =
                      join_str [CHR 0x0A]
                        (html_prologue
                         @ concat (map render_directory entries)
                         @ [''</ul>'', ''<ul id="functionList">'', ''<h2>Function List</h2>'']
                         @ concat (map render_flat_entry (tree_functions entries))
                         @ [''</ul>'', ''</body></html>'']),
                    printed = ''HTML documentation written to '' @ output_file\<rparr>))\<close>
  by (simp add: generate_html_def build_html_render render_def split: sum.splits option.splits)

subsection \<open>C9: determinism\<close>

text \<open>
  C9: two runs on the same directories, in environments with the same library
  functions, the same enumeration of each directory and the same result of opening
  each selected file, have the same outcome: the same document, or the same
  exception.
\<close>

theorem generate_html_deterministic:
  assumes "os_path_relpath env1 = os_path_relpath env2"
    and "ast_parse env1 = ast_parse env2"
    and "open_w env1 output_file = open_w env2 output_file"
    and "\<forall>directory \<in> set directories. os_walk env1 directory = os_walk env2 directory"
    and "\<forall>directory \<in> set directories. \<forall>walked. os_walk env1 directory = Inr walked \<longrightarrow>
           (\<forall>(root, dirs, files) \<in> set walked. \<forall>file \<in> set files.
              endswith file ''.py'' \<longrightarrow>
                open_r env1 (path_join root file) = open_r env2 (path_join root file))"
  shows "generate_html env1 (PList directories) (PStr output_file)
           = generate_html env2 (PList directories) (PStr output_file)"
proof -
  have "scan_directory env1 directory = scan_directory env2 directory"
    if "directory \<in> set directories" for directory
    using assms(1,2,4,5) that by (intro scan_directory_same) auto
  then have "walker env1 directories = walker env2 directories"
    unfolding walker_def by (rule collect_cong)
  then show ?thesis
    by (simp add: generate_html_def build_html_render assms(3) split: sum.splits)
qed

theorem generate_html_deterministic_witness:
  "fs_root scenario_env \<noteq> fs_root rerun_env
   \<and> os_walk scenario_env ''proj'' = os_walk rerun_env ''proj''
   \<and> open_r scenario_env (path_join ''proj'' ''m.py'') = open_r rerun_env (path_join ''proj'' ''m.py'')
   \<and> generate_html scenario_env (PList [''proj'']) (PStr ''documentation.html'')
       = generate_html rerun_env (PList [''proj'']) (PStr ''documentation.html'')"
proof -
  have r: "os_path_relpath scenario_env = os_path_relpath rerun_env"
    by (simp add: scenario_env_simps rerun_env_simps)
  have p: "ast_parse scenario_env = ast_parse rerun_env"
    by (simp add: scenario_env_simps rerun_env_simps)
  have w: "open_w scenario_env ''documentation.html'' = open_w rerun_env ''documentation.html''"
    by (simp add: scenario_env_simps rerun_env_simps)
  have d: "\<forall>directory \<in> set [''proj''].
             os_walk scenario_env directory = os_walk rerun_env directory"
    by (simp add: walk_scenario_proj walk_rerun_proj)
  have f: "\<forall>directory \<in> set [''proj'']. \<forall>walked. os_walk scenario_env directory = Inr walked \<longrightarrow>
             (\<forall>(root, dirs, files) \<in> set walked. \<forall>file \<in> set files.
                endswith file ''.py'' \<longrightarrow>
                  open_r scenario_env (path_join root file) = open_r rerun_env (path_join root file))"
    by (simp add: walk_scenario_proj open_scenario_m open_rerun_m)
  have n: "fs_root scenario_env \<noteq> fs_root rerun_env"
    by (simp add: scenario_env_simps rerun_env_simps demo_root_def rerun_root_def)
  show ?thesis
    using generate_html_deterministic [OF r p w d f] n
    by (simp add: walk_scenario_proj walk_rerun_proj open_scenario_m open_rerun_m)
qed

subsection \<open>C10: arguments that are not directories\<close>

text \<open>
  C10: for an argument (a string without null character, as every command-line
  argument is) that does not resolve to a directory that can be listed, the
  enumeration is empty, the step of the loop raises nothing and emits the node of the
  argument's base name with an empty list of children, and the loop goes on with the
  remaining arguments.
\<close>

theorem not_a_directory_is_empty_node:
  assumes "CHR 0x00 \<notin> set directory"
    and "\<forall>entries. resolve env directory \<noteq> Some (Dir entries)"
  shows \<open>os_walk env directory = Inr []
         \<and> directory_step env st directory =
             Inr (fst st @ [''<li><span class="caret">'' @ basename directory @ ''</span>'',
                           ''<ul class="nested">'', ''</ul></li>''],
                  snd st)
         \<and> for_loop (directory_step env) st (directory # directories) =
             for_loop (directory_step env)
               (fst st @ [''<li><span class="caret">'' @ basename directory @ ''</span>'',
                          ''<ul class="nested">'', ''</ul></li>''],
                snd st)
               directories\<close>
  using os_walk_not_directory [OF assms] by (simp add: directory_step_def Let_def)

theorem not_a_directory_is_empty_node_witness:
  \<open>CHR 0x00 \<notin> set ''nothere''
   \<and> CHR 0x00 \<notin> set ''README''
   \<and> resolve demo_env ''nothere'' = None
   \<and> resolve demo_env ''README'' = Some (File (Text ''read me''))
   \<and> os_walk demo_env ''nothere'' = Inr []
   \<and> os_walk demo_env ''README'' = Inr []
   \<and> for_loop (directory_step demo_env) ([], []) [''nothere'', ''README''] =
       Inr ([''<li><span class="caret">nothere</span>'', ''<ul class="nested">'', ''</ul></li>'',
             ''<li><span class="caret">README</span>'', ''<ul class="nested">'', ''</ul></li>''],
            [])\<close>
proof -
  have a: "resolve demo_env ''nothere'' = None"
    by (simp add: fs_defs)
  have b: "resolve demo_env ''README'' = Some (File (Text ''read me''))"
    by (simp add: fs_defs)
  have a0: "CHR 0x00 \<notin> set ''nothere''"
    by simp
  have b0: "CHR 0x00 \<notin> set ''README''"
    by simp
  have a': "\<forall>entries. resolve demo_env ''nothere'' \<noteq> Some (Dir entries)"
    by (simp add: a)
  have b': "\<forall>entries. resolve demo_env ''README'' \<noteq> Some (Dir entries)"
    by (simp add: b)
  show ?thesis
    using not_a_directory_is_empty_node [OF a0 a', of "([], [])" "[''README'']"]
      not_a_directory_is_empty_node [OF b0 b', of
        \<open>([''<li><span class="caret">nothere</span>'', ''<ul class="nested">'', ''</ul></li>''], [])\<close>
        "[]"]
      a b
    by (simp add: basename_def del: for_loop.simps(2))
qed

text \<open>
  A string with a null character is no path and cannot be a command-line argument;
  handed to \<^verbatim>\<open>generate_html\<close> by a caller, it makes the enumeration raise
  \<^verbatim>\<open>ValueError\<close>.
\<close>

lemma null_character_raises:
  "generate_html env (PList [[CHR ''a'', CHR 0x00, CHR ''b'']]) output_file = Inl ValueError"
  by (simp add: generate_html_def build_html_def directory_step_def os_walk_def Let_def)

end
